theory Spec2Isabelle
  imports Main "HOL-Library.State_Monad" "HOL-Library.Word"
begin

section \<open>The debug header of PlotPy: \<^verbatim>\<open>src/debug.hpp\<close>\<close>

text \<open>
  The header defines one preprocessor constant, \<^verbatim>\<open>DEBUG\<close>, and two function-like macros,
  \<^verbatim>\<open>check\<close> and \<^verbatim>\<open>check_img_ptr\<close>, each with two bodies selected by \<^verbatim>\<open>#if DEBUG\<close>.
  A macro is expanded in the body of the function that uses it, so

  \<^item> its arguments are \<^emph>\<open>expressions\<close>, evaluated where (and as often as) the body names
    them: an argument is modelled as a computation on the state of the program;
  \<^item> its \<^verbatim>\<open>return r;\<close> leaves the enclosing function: the macro is modelled as a
    statement whose result says whether control goes on to the next statement or the
    enclosing function returns;
  \<^item> its \<^verbatim>\<open>printf\<close> writes to the standard output: the state of the program holds the
    calls of \<^verbatim>\<open>printf\<close> made so far.
\<close>

subsection \<open>Values, output and control flow\<close>

text \<open>
  The index check compares two \<^verbatim>\<open>int\<close>s and computes nothing from them: an index and
  an extent are integers. The pointer check computes with the extents and strides of the
  image, which are \<^verbatim>\<open>int\<close>s of 32 bits: they are words, read as signed numbers by
  \<open>sint\<close>. C leaves the overflow of an \<^verbatim>\<open>int\<close> undefined; the words wrap around, as the
  compiled code does on a two's complement machine. A pointer is the address
  it holds, counted in elements of the pointed-to type, so that \<^verbatim>\<open>p + k\<close> adds the
  integer \<open>k\<close> to the address and \<^verbatim>\<open>p < q\<close> compares addresses.
\<close>

type_synonym addr = int

text \<open>The arguments of a \<^verbatim>\<open>printf\<close> call after the format: an \<^verbatim>\<open>int\<close> or a pointer.\<close>

datatype arg = IntArg int | PtrArg addr

text \<open>
  The state of the program: the \<^verbatim>\<open>printf\<close> calls made so far (format and arguments, oldest
  first), and the rest of the program's memory, of which the header knows nothing.
\<close>

record 'm world =
  stdout :: "(string \<times> arg list) list"
  mem :: 'm

text \<open>
  What a statement does to the control flow of the function it stands in: execution
  continues with the next statement, or the function returns a value.
\<close>

datatype 'r flow = Continue | Return 'r

text \<open>An argument expression without side effects, evaluating to \<open>v\<close>.\<close>

abbreviation rvalue :: "'a \<Rightarrow> ('s, 'a) state" where
  "rvalue v \<equiv> State_Monad.return v"

text \<open>Member access \<^verbatim>\<open>e.f\<close>: evaluates \<open>e\<close> and reads the field.\<close>

definition field :: "('d \<Rightarrow> 'a) \<Rightarrow> ('s, 'd) state \<Rightarrow> ('s, 'a) state" where
  "field f e = do { d \<leftarrow> e; State_Monad.return (f d) }"

text \<open>C's \<^verbatim>\<open>a || b\<close>: \<open>b\<close> is evaluated only when \<open>a\<close> is false.\<close>

definition lor :: "('s, bool) state \<Rightarrow> ('s, bool) state \<Rightarrow> ('s, bool) state" where
  "lor a b = do { c \<leftarrow> a; if c then State_Monad.return True else b }"

text \<open>\<^verbatim>\<open>printf(fmt, args...)\<close>: the call is appended to the output. Its result is not used.\<close>

definition printf :: "string \<Rightarrow> arg list \<Rightarrow> ('m world, unit) state" where
  "printf fmt args = State (\<lambda>w. ((), w\<lparr>stdout := stdout w @ [(fmt, args)]\<rparr>))"

subsection \<open>The text a \<^verbatim>\<open>printf\<close> call writes\<close>

text \<open>
  The C library's formatting, for the conversions the header uses: \<^verbatim>\<open>%d\<close> writes an
  \<^verbatim>\<open>int\<close> in decimal, \<^verbatim>\<open>%p\<close> writes a pointer in an implementation-defined way (the
  parameter \<open>pp\<close>), \<^verbatim>\<open>%%\<close> writes a percent sign, every other character is copied. The
  result is \<open>None\<close> where the call has no defined output: a conversion without an argument
  of its type, or a conversion outside these three.
\<close>

function show_nat :: "nat \<Rightarrow> string" where
  "show_nat n =
     (if n < 10 then [''0123456789'' ! n]
      else show_nat (n div 10) @ [''0123456789'' ! (n mod 10)])"
  by pat_completeness auto
termination
  by (relation "measure id") auto

declare show_nat.simps [simp del]

definition show_int :: "int \<Rightarrow> string" where
  "show_int i = (if i < 0 then CHR ''-'' # show_nat (nat (- i)) else show_nat (nat i))"

fun printf_output :: "(addr \<Rightarrow> string) \<Rightarrow> string \<Rightarrow> arg list \<Rightarrow> string option" where
  "printf_output pp [] args = Some []"
| "printf_output pp (c # fmt) args =
     (if c \<noteq> CHR ''%'' then map_option ((#) c) (printf_output pp fmt args)
      else case fmt of
        [] \<Rightarrow> None
      | d # fmt' \<Rightarrow>
          if d = CHR ''%'' then map_option ((#) CHR ''%'') (printf_output pp fmt' args)
          else if d = CHR ''d'' then
            (case args of
               IntArg i # args' \<Rightarrow> map_option ((@) (show_int i)) (printf_output pp fmt' args')
             | _ \<Rightarrow> None)
          else if d = CHR ''p'' then
            (case args of
               PtrArg a # args' \<Rightarrow> map_option ((@) (pp a)) (printf_output pp fmt' args')
             | _ \<Rightarrow> None)
          else None)"

subsection \<open>The switch\<close>

text \<open>\<^verbatim>\<open>#define DEBUG 0\<close>\<close>

definition DEBUG :: int where
  "DEBUG = 0"

text \<open>\<^verbatim>\<open>#if DEBUG\<close> takes its first branch when the constant is not zero.\<close>

definition enabled :: "int \<Rightarrow> bool" where
  "enabled d = (d \<noteq> 0)"

subsection \<open>The index check\<close>

text \<open>
  \<^verbatim>\<open>
  #define check(msg, x, n, r)                         \
      if (x < 0 || x >= n)                            \
      {                                               \
          printf(msg "%d out of bound (%d)\n", x, n); \
          return r;                                   \
      }
  \<close>
  The label \<open>msg\<close> is a string literal, joined to the format by the compiler. The operands
  of \<^verbatim>\<open>>=\<close> and the arguments of the call are evaluated in the order they are written
  (C leaves the order open; it matters only for arguments with side effects).
\<close>

definition check_enabled ::
  "string \<Rightarrow> ('m world, int) state \<Rightarrow> ('m world, int) state \<Rightarrow> ('m world, 'r) state
    \<Rightarrow> ('m world, 'r flow) state" where
  "check_enabled msg x n r = do {
     c \<leftarrow> lor (do { a \<leftarrow> x; State_Monad.return (a < 0) })
              (do { a \<leftarrow> x; b \<leftarrow> n; State_Monad.return (a \<ge> b) });
     if c then do {
       a \<leftarrow> x;
       b \<leftarrow> n;
       printf (msg @ ''%d out of bound (%d)\<newline>'') [IntArg a, IntArg b];
       v \<leftarrow> r;
       State_Monad.return (Return v)
     }
     else State_Monad.return Continue
   }"

text \<open>\<^verbatim>\<open>#define check(msg, x, n, r) ;\<close>: the empty statement; the arguments are dropped.\<close>

definition check_disabled ::
  "string \<Rightarrow> ('m world, int) state \<Rightarrow> ('m world, int) state \<Rightarrow> ('m world, 'r) state
    \<Rightarrow> ('m world, 'r flow) state" where
  "check_disabled msg x n r = State_Monad.return Continue"

text \<open>The macro \<^verbatim>\<open>check\<close> of a build whose \<^verbatim>\<open>DEBUG\<close> is \<open>d\<close>.\<close>

definition check ::
  "int \<Rightarrow> string \<Rightarrow> ('m world, int) state \<Rightarrow> ('m world, int) state \<Rightarrow> ('m world, 'r) state
    \<Rightarrow> ('m world, 'r flow) state" where
  "check d msg x n r =
     (if enabled d then check_enabled msg x n r else check_disabled msg x n r)"

subsection \<open>The pointer check\<close>

text \<open>
  Modelled from the spec: the type of the macro's \<^verbatim>\<open>img\<close> argument is declared outside this
  header, which reads its members \<^verbatim>\<open>base\<close>, \<^verbatim>\<open>ni\<close>, \<^verbatim>\<open>nj\<close>, \<^verbatim>\<open>si\<close> and \<^verbatim>\<open>sj\<close> only. The
  specification's BufferDescriptor: the address of element \<open>[0,0]\<close>, the extents along the
  two axes and the strides along them, in elements; the strides may have any sign. The
  header prints the four with \<^verbatim>\<open>%d\<close>: they are \<^verbatim>\<open>int\<close>s.
\<close>

record BufferDescriptor =
  base :: addr
  ni :: "32 word"
  nj :: "32 word"
  si :: "32 word"
  sj :: "32 word"

text \<open>
  Modelled from the spec: the addressing of a BufferDescriptor, which the header does not
  state. The element \<open>[i,j]\<close>, for \<open>0 \<le> i < ni\<close> and \<open>0 \<le> j < nj\<close>, is at
  \<open>base + i*si + j*sj\<close>.
\<close>

definition element_addr :: "BufferDescriptor \<Rightarrow> int \<Rightarrow> int \<Rightarrow> addr" where
  "element_addr img i j = base img + i * sint (si img) + j * sint (sj img)"

text \<open>
  \<^verbatim>\<open>
  #define check_img_ptr(msg, p, r, img)                                                                  \
      if (p < img.base || p > (img.base + (img.ni - 1) * img.si + (img.nj - 1) * img.sj))                \
      {                                                                                                  \
          printf(msg "%p out of bound (%p,%dx%d, %dx%d\n", p, img.base, img.ni, img.si, img.nj, img.sj); \
          return r;                                                                                      \
      }
  \<close>
  Every \<^verbatim>\<open>img.f\<close> evaluates the argument \<open>img\<close> again. Operands and arguments are evaluated in
  the order they are written, as in the index check. The offset
  \<^verbatim>\<open>(img.ni - 1) * img.si + (img.nj - 1) * img.sj\<close> is computed in \<^verbatim>\<open>int\<close>, in 32 bits, and
  its signed value is added to the address \<^verbatim>\<open>img.base\<close>.
\<close>

definition check_img_ptr_enabled ::
  "string \<Rightarrow> ('m world, addr) state \<Rightarrow> ('m world, 'r) state
    \<Rightarrow> ('m world, BufferDescriptor) state \<Rightarrow> ('m world, 'r flow) state" where
  "check_img_ptr_enabled msg p r img = do {
     c \<leftarrow> lor (do { a \<leftarrow> p; b \<leftarrow> field base img; State_Monad.return (a < b) })
              (do { a \<leftarrow> p;
                    b \<leftarrow> field base img;
                    i \<leftarrow> field ni img;
                    s \<leftarrow> field si img;
                    j \<leftarrow> field nj img;
                    t \<leftarrow> field sj img;
                    State_Monad.return (a > b + sint ((i - 1) * s + (j - 1) * t)) });
     if c then do {
       a \<leftarrow> p;
       b \<leftarrow> field base img;
       i \<leftarrow> field ni img;
       s \<leftarrow> field si img;
       j \<leftarrow> field nj img;
       t \<leftarrow> field sj img;
       printf (msg @ ''%p out of bound (%p,%dx%d, %dx%d\<newline>'')
         [PtrArg a, PtrArg b, IntArg (sint i), IntArg (sint s), IntArg (sint j),
          IntArg (sint t)];
       v \<leftarrow> r;
       State_Monad.return (Return v)
     }
     else State_Monad.return Continue
   }"

text \<open>\<^verbatim>\<open>#define check_img_ptr(msg, p, r, img) ;\<close>\<close>

definition check_img_ptr_disabled ::
  "string \<Rightarrow> ('m world, addr) state \<Rightarrow> ('m world, 'r) state
    \<Rightarrow> ('m world, BufferDescriptor) state \<Rightarrow> ('m world, 'r flow) state" where
  "check_img_ptr_disabled msg p r img = State_Monad.return Continue"

text \<open>The macro \<^verbatim>\<open>check_img_ptr\<close> of a build whose \<^verbatim>\<open>DEBUG\<close> is \<open>d\<close>.\<close>

definition check_img_ptr ::
  "int \<Rightarrow> string \<Rightarrow> ('m world, addr) state \<Rightarrow> ('m world, 'r) state
    \<Rightarrow> ('m world, BufferDescriptor) state \<Rightarrow> ('m world, 'r flow) state" where
  "check_img_ptr d msg p r img =
     (if enabled d then check_img_ptr_enabled msg p r img
      else check_img_ptr_disabled msg p r img)"

section \<open>Properties\<close>

text \<open>
  The properties speak of checks whose arguments are values: expressions without side
  effects (\<open>rvalue\<close>), as a variable or a constant is. Only the property of the disabled
  checks speaks of arbitrary argument expressions.
\<close>

subsection \<open>Formatting\<close>

lemma digit_in_digits: "d < 10 \<Longrightarrow> ''0123456789'' ! d \<in> set ''0123456789''"
  by (rule nth_mem) simp

lemma show_nat_digits: "set (show_nat n) \<subseteq> set ''0123456789''"
proof (induction n rule: show_nat.induct)
  case (1 n)
  show ?case
  proof (cases "n < 10")
    case True
    have "show_nat n = [''0123456789'' ! n]"
      using True by (subst show_nat.simps) simp
    then show ?thesis
      using digit_in_digits [OF True] by simp
  next
    case False
    have eq: "show_nat n = show_nat (n div 10) @ [''0123456789'' ! (n mod 10)]"
      using False by (subst show_nat.simps) simp
    have "n mod 10 < 10" by simp
    from digit_in_digits [OF this] "1.IH" [OF False] show ?thesis
      unfolding eq by simp
  qed
qed

lemma show_nat_avoids: "c \<notin> set ''0123456789'' \<Longrightarrow> c \<notin> set (show_nat n)"
  using show_nat_digits [of n] by (rule contra_subsetD)

lemma show_int_avoids:
  assumes "c \<noteq> CHR ''-''" and "c \<notin> set ''0123456789''"
  shows "c \<notin> set (show_int i)"
  using assms(1) show_nat_avoids [OF assms(2)] by (simp add: show_int_def)

lemma show_int_no_newline: "count_list (show_int i) CHR ''\<newline>'' = 0"
proof -
  have "CHR ''\<newline>'' \<notin> set (show_int i)"
    by (rule show_int_avoids) simp_all
  then show ?thesis
    by (simp add: count_list_0_iff)
qed

text \<open>A prefix of the format without \<^verbatim>\<open>%\<close> is written as it stands.\<close>

lemma printf_output_plain_prefix:
  "CHR ''%'' \<notin> set pre \<Longrightarrow>
   printf_output pp (pre @ fmt) args = map_option ((@) pre) (printf_output pp fmt args)"
proof (induction pre)
  case Nil
  show ?case by (simp add: option.map_ident)
next
  case (Cons a pre)
  from Cons.prems have ne: "a \<noteq> CHR ''%''" and rest: "CHR ''%'' \<notin> set pre"
    by auto
  have "printf_output pp ((a # pre) @ fmt) args =
          map_option ((#) a) (printf_output pp (pre @ fmt) args)"
    using ne by simp
  also have "\<dots> = map_option ((#) a) (map_option ((@) pre) (printf_output pp fmt args))"
    using Cons.IH [OF rest] by simp
  also have "\<dots> = map_option ((@) (a # pre)) (printf_output pp fmt args)"
    by (cases "printf_output pp fmt args") simp_all
  finally show ?case .
qed

lemma index_format_output:
  "printf_output pp ''%d out of bound (%d)\<newline>'' [IntArg x, IntArg n] =
     Some (show_int x @ '' out of bound ('' @ show_int n @ '')\<newline>'')"
  by simp

subsection \<open>The offset of the last element\<close>



subsection \<open>One run of a check on values\<close>

lemma enabled_1: "enabled 1"
  by (simp add: enabled_def)

lemma check_enabled_run:
  "run_state (check_enabled msg (rvalue x) (rvalue n) (rvalue r)) w =
     (if x < 0 \<or> n \<le> x
      then (Return r,
            w\<lparr>stdout := stdout w @ [(msg @ ''%d out of bound (%d)\<newline>'', [IntArg x, IntArg n])]\<rparr>)
      else (Continue, w))"
  by (simp add: check_enabled_def lor_def printf_def)

lemma check_img_ptr_enabled_run:
  "run_state (check_img_ptr_enabled msg (rvalue p) (rvalue r) (rvalue img)) w =
     (if p < base img \<or> base img + sint ((ni img - 1) * si img + (nj img - 1) * sj img) < p
      then (Return r,
            w\<lparr>stdout := stdout w @
               [(msg @ ''%p out of bound (%p,%dx%d, %dx%d\<newline>'',
                 [PtrArg p, PtrArg (base img), IntArg (sint (ni img)), IntArg (sint (si img)),
                  IntArg (sint (nj img)), IntArg (sint (sj img))])]\<rparr>)
      else (Continue, w))"
  by (simp add: check_img_ptr_enabled_def lor_def field_def printf_def)

lemma check_run:
  "run_state (check d msg (rvalue x) (rvalue n) (rvalue r)) w =
     (if enabled d \<and> (x < 0 \<or> n \<le> x)
      then (Return r,
            w\<lparr>stdout := stdout w @ [(msg @ ''%d out of bound (%d)\<newline>'', [IntArg x, IntArg n])]\<rparr>)
      else (Continue, w))"
  by (simp add: check_def check_enabled_run check_disabled_def)

lemma check_img_ptr_run:
  "run_state (check_img_ptr d msg (rvalue p) (rvalue r) (rvalue img)) w =
     (if enabled d \<and> (p < base img \<or> base img + sint ((ni img - 1) * si img + (nj img - 1) * sj img) < p)
      then (Return r,
            w\<lparr>stdout := stdout w @
               [(msg @ ''%p out of bound (%p,%dx%d, %dx%d\<newline>'',
                 [PtrArg p, PtrArg (base img), IntArg (sint (ni img)), IntArg (sint (si img)),
                  IntArg (sint (nj img)), IntArg (sint (sj img))])]\<rparr>)
      else (Continue, w))"
  by (simp add: check_img_ptr_def check_img_ptr_enabled_run check_img_ptr_disabled_def)

text \<open>The decision of an enabled check, whatever the sentinel expression does.\<close>

lemma check_enabled_decision:
  "(fst (run_state (check_enabled msg (rvalue x) (rvalue n) r) w) = Continue) = (0 \<le> x \<and> x < n)"
  by (auto simp: check_enabled_def lor_def printf_def split: prod.splits)

lemma check_img_ptr_enabled_decision:
  "(fst (run_state (check_img_ptr_enabled msg (rvalue p) r (rvalue img)) w) = Continue) =
     (base img \<le> p \<and> p \<le> base img + sint ((ni img - 1) * si img + (nj img - 1) * sj img))"
  by (auto simp: check_img_ptr_enabled_def lor_def field_def printf_def split: prod.splits)

subsection \<open>The index check\<close>

text \<open>
  C1. With the switch enabled and \<open>x < 0\<close> or \<open>x \<ge> n\<close>, the index check makes exactly one
  \<^verbatim>\<open>printf\<close> call, whose format starts with the label and whose arguments are \<open>x\<close> and
  \<open>n\<close>, changes nothing else, and the enclosing function returns the sentinel. The label
  is part of the format: for a label without \<^verbatim>\<open>%\<close> the text written is the label
  followed by \<^verbatim>\<open><x> out of bound (<n>)\<close> and a newline, with \<open>x\<close> and \<open>n\<close> in decimal.
  That text has one newline more than the label, so a label without a newline gives
  exactly one line.
\<close>

theorem check_out_of_range:
  assumes "enabled d" and "x < 0 \<or> x \<ge> n"
  shows "run_state (check d msg (rvalue x) (rvalue n) (rvalue r)) w =
           (Return r,
            w\<lparr>stdout := stdout w @ [(msg @ ''%d out of bound (%d)\<newline>'', [IntArg x, IntArg n])]\<rparr>)
         \<and> (CHR ''%'' \<notin> set msg \<longrightarrow>
             printf_output pp (msg @ ''%d out of bound (%d)\<newline>'') [IntArg x, IntArg n] =
               Some (msg @ show_int x @ '' out of bound ('' @ show_int n @ '')\<newline>''))
         \<and> count_list (msg @ show_int x @ '' out of bound ('' @ show_int n @ '')\<newline>'')
               CHR ''\<newline>'' = count_list msg CHR ''\<newline>'' + 1"
proof (intro conjI impI)
  show "run_state (check d msg (rvalue x) (rvalue n) (rvalue r)) w =
          (Return r,
           w\<lparr>stdout := stdout w @ [(msg @ ''%d out of bound (%d)\<newline>'', [IntArg x, IntArg n])]\<rparr>)"
    using assms by (simp add: check_run)
  show "printf_output pp (msg @ ''%d out of bound (%d)\<newline>'') [IntArg x, IntArg n] =
          Some (msg @ show_int x @ '' out of bound ('' @ show_int n @ '')\<newline>'')"
    if plain: "CHR ''%'' \<notin> set msg"
    unfolding printf_output_plain_prefix [OF plain] index_format_output by simp
  show "count_list (msg @ show_int x @ '' out of bound ('' @ show_int n @ '')\<newline>'')
          CHR ''\<newline>'' = count_list msg CHR ''\<newline>'' + 1"
    by (simp add: show_int_no_newline)
qed

text \<open>
  The scenario of an index \<open>-1\<close> against an extent \<open>10\<close>: the function returns its sentinel
  \<open>0\<close>, and the line written holds \<open>-1\<close> and \<open>10\<close>.
\<close>

theorem check_out_of_range_witness:
  "run_state (check 1 ''row '' (rvalue (- 1)) (rvalue 10) (rvalue (0::int)))
       \<lparr>stdout = [], mem = ()\<rparr> =
     (Return 0, \<lparr>stdout = [(''row %d out of bound (%d)\<newline>'', [IntArg (- 1), IntArg 10])], mem = ()\<rparr>)
   \<and> printf_output (\<lambda>a. []) ''row %d out of bound (%d)\<newline>'' [IntArg (- 1), IntArg 10] =
       Some ''row -1 out of bound (10)\<newline>''
   \<and> count_list ''row -1 out of bound (10)\<newline>'' CHR ''\<newline>'' = 1"
proof -
  have o: "(- 1 :: int) < 0 \<or> - 1 \<ge> (10 :: int)" by simp
  have n1: "show_int (- 1) = ''-1''" by (simp add: show_int_def show_nat.simps)
  have n10: "show_int 10 = ''10''" by (simp add: show_int_def show_nat.simps)
  from check_out_of_range
    [OF enabled_1 o, of "''row ''" "0::int" "\<lparr>stdout = [], mem = ()\<rparr>" "\<lambda>a. []"]
  show ?thesis by (simp add: n1 n10)
qed

text \<open>
  C2. With the switch enabled and \<open>0 \<le> x < n\<close>, the index check makes no \<^verbatim>\<open>printf\<close> call
  and changes nothing: control continues after it in the same state.
\<close>

theorem check_in_range:
  assumes "enabled d" and "0 \<le> x" and "x < n"
  shows "run_state (check d msg (rvalue x) (rvalue n) (rvalue r)) w = (Continue, w)"
  using assms by (simp add: check_run)

theorem check_in_range_witness:
  "run_state (check 1 ''row '' (rvalue 3) (rvalue 10) (rvalue (0::int)))
       \<lparr>stdout = [], mem = ()\<rparr> = (Continue, \<lparr>stdout = [], mem = ()\<rparr>)"
proof -
  from check_in_range [OF enabled_1, of 3 10 "''row ''" "0::int" "\<lparr>stdout = [], mem = ()\<rparr>"]
  show ?thesis by simp
qed

subsection \<open>The pointer check\<close>










text \<open>
  C7. The enabled pointer check looks at the span only, not at the strides: there is a
  descriptor and a pointer \<open>p\<close> with \<open>base \<le> p \<le> last\<close> that is the address of no element
  \<open>[i,j]\<close>, \<open>0 \<le> i < ni\<close>, \<open>0 \<le> j < nj\<close>, and that passes the check (no \<^verbatim>\<open>printf\<close> call,
  control continues). Two rows of two columns with a row stride of four: the address
  \<open>base + 2\<close> lies between the rows. Here \<open>last\<close> is the same as an integer and as the
  check computes it.
\<close>

theorem check_img_ptr_off_stride:
  "\<exists>img p. base img \<le> p
     \<and> p \<le> base img + (sint (ni img) - 1) * sint (si img) + (sint (nj img) - 1) * sint (sj img)
     \<and> p \<le> base img + sint ((ni img - 1) * si img + (nj img - 1) * sj img)
     \<and> \<not> (\<exists>i j. 0 \<le> i \<and> i < sint (ni img) \<and> 0 \<le> j \<and> j < sint (nj img)
              \<and> p = element_addr img i j)
     \<and> (\<forall>d msg (r :: 'r) (w :: 'm world). enabled d \<longrightarrow>
           run_state (check_img_ptr d msg (rvalue p) (rvalue r) (rvalue img)) w = (Continue, w))"
proof (intro exI conjI)
  let ?img = "\<lparr>base = 1000, ni = 2, nj = 2, si = 4, sj = 1\<rparr>"
  let ?p = "1002 :: int"
  show "base ?img \<le> ?p" by simp
  show "?p \<le> base ?img + (sint (ni ?img) - 1) * sint (si ?img)
          + (sint (nj ?img) - 1) * sint (sj ?img)"
    by simp
  show "?p \<le> base ?img + sint ((ni ?img - 1) * si ?img + (nj ?img - 1) * sj ?img)"
    by simp
  show "\<not> (\<exists>i j. 0 \<le> i \<and> i < sint (ni ?img) \<and> 0 \<le> j \<and> j < sint (nj ?img)
            \<and> ?p = element_addr ?img i j)"
    by (simp add: element_addr_def) presburger
  show "\<forall>d msg (r :: 'r) (w :: 'm world). enabled d \<longrightarrow>
          run_state (check_img_ptr d msg (rvalue ?p) (rvalue r) (rvalue ?img)) w = (Continue, w)"
    by (simp add: check_img_ptr_run)
qed

theorem check_img_ptr_off_stride_witness:
  "\<exists>img p. base img \<le> p
     \<and> p \<le> base img + (sint (ni img) - 1) * sint (si img) + (sint (nj img) - 1) * sint (sj img)
     \<and> \<not> (\<exists>i j. 0 \<le> i \<and> i < sint (ni img) \<and> 0 \<le> j \<and> j < sint (nj img)
              \<and> p = element_addr img i j)
     \<and> run_state (check_img_ptr 1 ''img '' (rvalue p) (rvalue False) (rvalue img))
          \<lparr>stdout = [], mem = ()\<rparr> = (Continue, \<lparr>stdout = [], mem = ()\<rparr>)"
proof -
  from check_img_ptr_off_stride [where 'r = bool and 'm = unit] obtain img p where
    a: "base img \<le> p"
    and b: "p \<le> base img + (sint (ni img) - 1) * sint (si img)
              + (sint (nj img) - 1) * sint (sj img)"
    and c: "\<not> (\<exists>i j. 0 \<le> i \<and> i < sint (ni img) \<and> 0 \<le> j \<and> j < sint (nj img)
                \<and> p = element_addr img i j)"
    and r: "\<forall>d msg (r :: bool) (w :: unit world). enabled d \<longrightarrow>
           run_state (check_img_ptr d msg (rvalue p) (rvalue r) (rvalue img)) w = (Continue, w)"
    by blast
  from r enabled_1
  have "run_state (check_img_ptr 1 ''img '' (rvalue p) (rvalue False) (rvalue img))
          \<lparr>stdout = [], mem = ()\<rparr> = (Continue, \<lparr>stdout = [], mem = ()\<rparr>)"
    by blast
  with a b c show ?thesis by blast
qed

subsection \<open>The disabled checks and the switch\<close>

text \<open>
  C4. With the switch disabled both checks are the statement that does nothing, whatever
  their arguments are: the argument expressions, side effects and all, are not evaluated,
  no \<^verbatim>\<open>printf\<close> call is made, the state is the same and control continues.
\<close>

theorem checks_disabled_noop:
  assumes "\<not> enabled d"
  shows "check d msg x n r = rvalue Continue
       \<and> check_img_ptr d msg' p r' img = rvalue Continue
       \<and> run_state (check d msg x n r) w = (Continue, w)
       \<and> run_state (check_img_ptr d msg' p r' img) w = (Continue, w)"
  using assms
  by (simp add: check_def check_disabled_def check_img_ptr_def check_img_ptr_disabled_def)

text \<open>
  Arguments that would each count their evaluation in the memory, an index out of range
  and a pointer out of range: nothing is counted and nothing is written.
\<close>

theorem checks_disabled_noop_witness:
  "run_state
     (check 0 ''row ''
        (State (\<lambda>w. (- 1, w\<lparr>mem := mem w + 1\<rparr>)))
        (State (\<lambda>w. (10, w\<lparr>mem := mem w + 1\<rparr>)))
        (State (\<lambda>w. (False, w\<lparr>mem := mem w + 1\<rparr>))))
     \<lparr>stdout = [], mem = 0 :: int\<rparr> = (Continue, \<lparr>stdout = [], mem = 0\<rparr>)
   \<and> run_state
     (check_img_ptr 0 ''img ''
        (State (\<lambda>w. (999, w\<lparr>mem := mem w + 1\<rparr>)))
        (State (\<lambda>w. (False, w\<lparr>mem := mem w + 1\<rparr>)))
        (State (\<lambda>w. (\<lparr>base = 1000, ni = 4, nj = 3, si = 3, sj = 1\<rparr>, w\<lparr>mem := mem w + 1\<rparr>))))
     \<lparr>stdout = [], mem = 0 :: int\<rparr> = (Continue, \<lparr>stdout = [], mem = 0\<rparr>)"
proof -
  have e: "\<not> enabled 0" by (simp add: enabled_def)
  from checks_disabled_noop
    [OF e, of "''row ''"
      "State (\<lambda>w. (- 1, w\<lparr>mem := mem w + 1\<rparr>))"
      "State (\<lambda>w. (10, w\<lparr>mem := mem w + 1\<rparr>))"
      "State (\<lambda>w. (False, w\<lparr>mem := mem w + 1\<rparr>))"
      "''img ''"
      "State (\<lambda>w. (999, w\<lparr>mem := mem w + 1\<rparr>))"
      "State (\<lambda>w. (False, w\<lparr>mem := mem w + 1\<rparr>))"
      "State (\<lambda>w. (\<lparr>base = 1000, ni = 4, nj = 3, si = 3, sj = 1\<rparr>, w\<lparr>mem := mem w + 1\<rparr>))"
      "\<lparr>stdout = [], mem = 0 :: int\<rparr>"]
  show ?thesis by simp
qed

text \<open>
  C9. The constant selects one of two builds, and there are two. A value that is not zero
  enables the checks (\<open>1\<close> does) and gives the macros of \<^verbatim>\<open>DEBUG 1\<close>; zero disables them
  and gives the macros of the header as it is. The two builds differ: on an index out of
  range and on a pointer out of range the enabled checks print and return, the disabled
  ones go on. The header as it is has the switch off, and both of its checks are the
  statement that does nothing.
\<close>

theorem switch_default_disabled:
  "DEBUG = 0 \<and> enabled DEBUG = False \<and> enabled 1 \<and> enabled d = (d \<noteq> DEBUG)
   \<and> check DEBUG msg x n r = rvalue Continue
   \<and> check_img_ptr DEBUG msg' p r' img = rvalue Continue
   \<and> (if enabled d
       then check d msg x n r = check 1 msg x n r
          \<and> check_img_ptr d msg' p r' img = check_img_ptr 1 msg' p r' img
       else check d msg x n r = check DEBUG msg x n r
          \<and> check_img_ptr d msg' p r' img = check_img_ptr DEBUG msg' p r' img)
   \<and> run_state (check 1 msg (rvalue (- 1)) (rvalue 10) (rvalue v)) w =
       (Return v,
        w\<lparr>stdout := stdout w @
           [(msg @ ''%d out of bound (%d)\<newline>'', [IntArg (- 1), IntArg 10])]\<rparr>)
   \<and> run_state (check DEBUG msg (rvalue (- 1)) (rvalue 10) (rvalue v)) w = (Continue, w)
   \<and> run_state (check_img_ptr 1 msg' (rvalue 999) (rvalue v)
         (rvalue \<lparr>base = 1000, ni = 4, nj = 3, si = 3, sj = 1\<rparr>)) w =
       (Return v,
        w\<lparr>stdout := stdout w @
           [(msg' @ ''%p out of bound (%p,%dx%d, %dx%d\<newline>'',
             [PtrArg 999, PtrArg 1000, IntArg 4, IntArg 3, IntArg 3, IntArg 1])]\<rparr>)
   \<and> run_state (check_img_ptr DEBUG msg' (rvalue 999) (rvalue v)
         (rvalue \<lparr>base = 1000, ni = 4, nj = 3, si = 3, sj = 1\<rparr>)) w = (Continue, w)"
proof -
  have sw: "DEBUG = 0 \<and> enabled DEBUG = False \<and> enabled 1 \<and> enabled d = (d \<noteq> DEBUG)"
    by (simp add: DEBUG_def enabled_def)
  have off: "check DEBUG msg x n r = rvalue Continue
      \<and> check_img_ptr DEBUG msg' p r' img = rvalue Continue"
    by (simp add: DEBUG_def enabled_def check_def check_img_ptr_def check_disabled_def
        check_img_ptr_disabled_def)
  have two: "if enabled d
       then check d msg x n r = check 1 msg x n r
          \<and> check_img_ptr d msg' p r' img = check_img_ptr 1 msg' p r' img
       else check d msg x n r = check DEBUG msg x n r
          \<and> check_img_ptr d msg' p r' img = check_img_ptr DEBUG msg' p r' img"
    by (simp add: DEBUG_def enabled_def check_def check_img_ptr_def)
  have differ: "run_state (check 1 msg (rvalue (- 1)) (rvalue 10) (rvalue v)) w =
       (Return v,
        w\<lparr>stdout := stdout w @
           [(msg @ ''%d out of bound (%d)\<newline>'', [IntArg (- 1), IntArg 10])]\<rparr>)
   \<and> run_state (check DEBUG msg (rvalue (- 1)) (rvalue 10) (rvalue v)) w = (Continue, w)
   \<and> run_state (check_img_ptr 1 msg' (rvalue 999) (rvalue v)
         (rvalue \<lparr>base = 1000, ni = 4, nj = 3, si = 3, sj = 1\<rparr>)) w =
       (Return v,
        w\<lparr>stdout := stdout w @
           [(msg' @ ''%p out of bound (%p,%dx%d, %dx%d\<newline>'',
             [PtrArg 999, PtrArg 1000, IntArg 4, IntArg 3, IntArg 3, IntArg 1])]\<rparr>)
   \<and> run_state (check_img_ptr DEBUG msg' (rvalue 999) (rvalue v)
         (rvalue \<lparr>base = 1000, ni = 4, nj = 3, si = 3, sj = 1\<rparr>)) w = (Continue, w)"
    by (simp add: check_run check_img_ptr_run enabled_1) (simp add: DEBUG_def enabled_def)
  from sw off two differ show ?thesis by blast
qed

theorem switch_default_disabled_witness:
  "run_state (check DEBUG ''row '' (rvalue (- 1)) (rvalue 10) (rvalue False))
       \<lparr>stdout = [], mem = ()\<rparr> = (Continue, \<lparr>stdout = [], mem = ()\<rparr>)
   \<and> run_state (check 1 ''row '' (rvalue (- 1)) (rvalue 10) (rvalue False))
       \<lparr>stdout = [], mem = ()\<rparr> =
       (Return False,
        \<lparr>stdout = [(''row %d out of bound (%d)\<newline>'', [IntArg (- 1), IntArg 10])], mem = ()\<rparr>)
   \<and> run_state (check_img_ptr DEBUG ''img '' (rvalue 999) (rvalue False)
         (rvalue \<lparr>base = 1000, ni = 4, nj = 3, si = 3, sj = 1\<rparr>)) \<lparr>stdout = [], mem = ()\<rparr> =
       (Continue, \<lparr>stdout = [], mem = ()\<rparr>)
   \<and> enabled 2 \<and> enabled (- 1) \<and> enabled 0 = False"
proof -
  note t = switch_default_disabled
    [of _ "''row ''" "rvalue (- 1) :: (unit world, int) state" "rvalue 10" "rvalue False"
      "''img ''" "rvalue 999" "rvalue False"
      "rvalue \<lparr>base = 1000, ni = 4, nj = 3, si = 3, sj = 1\<rparr>" False
      "\<lparr>stdout = [], mem = ()\<rparr>"]
  from t [of 2]
  have d: "DEBUG = 0" and e2: "enabled 2 = (2 \<noteq> DEBUG)"
    and a: "run_state (check DEBUG ''row '' (rvalue (- 1)) (rvalue 10) (rvalue False))
       \<lparr>stdout = [], mem = ()\<rparr> = (Continue, \<lparr>stdout = [], mem = ()\<rparr>)"
    and b: "run_state (check 1 ''row '' (rvalue (- 1)) (rvalue 10) (rvalue False))
       \<lparr>stdout = [], mem = ()\<rparr> =
       (Return False,
        \<lparr>stdout = [], mem = ()\<rparr>\<lparr>stdout := stdout \<lparr>stdout = [], mem = ()\<rparr> @
           [(''row '' @ ''%d out of bound (%d)\<newline>'', [IntArg (- 1), IntArg 10])]\<rparr>)"
    and c: "run_state (check_img_ptr DEBUG ''img '' (rvalue 999) (rvalue False)
         (rvalue \<lparr>base = 1000, ni = 4, nj = 3, si = 3, sj = 1\<rparr>)) \<lparr>stdout = [], mem = ()\<rparr> =
       (Continue, \<lparr>stdout = [], mem = ()\<rparr>)"
    by blast+
  from t [of "- 1"] have e3: "enabled (- 1) = (- 1 \<noteq> DEBUG)" by blast
  from t [of 0] have e0: "enabled 0 = (0 \<noteq> DEBUG)" by blast
  show ?thesis unfolding a b c e2 e3 e0 unfolding d by simp
qed

subsection \<open>Repetition and independence\<close>

text \<open>
  C8. A check run twice on the same values with the same switch decides the same both
  times, and when it fails each run makes its \<^verbatim>\<open>printf\<close> call: the output grows by the
  same call twice, and nothing else changes. This holds for both checks.
\<close>

theorem checks_repeatable:
  "run_state (do {
       f1 \<leftarrow> check d msg (rvalue x) (rvalue n) (rvalue r);
       f2 \<leftarrow> check d msg (rvalue x) (rvalue n) (rvalue r);
       rvalue (f1, f2)
     }) w =
     (if enabled d \<and> (x < 0 \<or> x \<ge> n)
      then ((Return r, Return r),
            w\<lparr>stdout := stdout w @
               [(msg @ ''%d out of bound (%d)\<newline>'', [IntArg x, IntArg n]),
                (msg @ ''%d out of bound (%d)\<newline>'', [IntArg x, IntArg n])]\<rparr>)
      else ((Continue, Continue), w))
   \<and> run_state (do {
       f1 \<leftarrow> check_img_ptr d msg (rvalue p) (rvalue r) (rvalue img);
       f2 \<leftarrow> check_img_ptr d msg (rvalue p) (rvalue r) (rvalue img);
       rvalue (f1, f2)
     }) w =
     (if enabled d \<and> (p < base img \<or> p > base img + sint ((ni img - 1) * si img + (nj img - 1) * sj img))
      then ((Return r, Return r),
            w\<lparr>stdout := stdout w @
               [(msg @ ''%p out of bound (%p,%dx%d, %dx%d\<newline>'',
                 [PtrArg p, PtrArg (base img), IntArg (sint (ni img)), IntArg (sint (si img)),
                  IntArg (sint (nj img)), IntArg (sint (sj img))]),
                (msg @ ''%p out of bound (%p,%dx%d, %dx%d\<newline>'',
                 [PtrArg p, PtrArg (base img), IntArg (sint (ni img)), IntArg (sint (si img)),
                  IntArg (sint (nj img)), IntArg (sint (sj img))])]\<rparr>)
      else ((Continue, Continue), w))"
  by (simp add: check_run check_img_ptr_run)

theorem checks_repeatable_witness:
  "run_state (do {
       f1 \<leftarrow> check 1 ''row '' (rvalue (- 1)) (rvalue 10) (rvalue False);
       f2 \<leftarrow> check 1 ''row '' (rvalue (- 1)) (rvalue 10) (rvalue False);
       rvalue (f1, f2)
     }) \<lparr>stdout = [], mem = ()\<rparr> =
     ((Return False, Return False),
      \<lparr>stdout = [(''row %d out of bound (%d)\<newline>'', [IntArg (- 1), IntArg 10]),
                 (''row %d out of bound (%d)\<newline>'', [IntArg (- 1), IntArg 10])],
       mem = ()\<rparr>)
   \<and> run_state (do {
       f1 \<leftarrow> check 1 ''row '' (rvalue 3) (rvalue 10) (rvalue False);
       f2 \<leftarrow> check 1 ''row '' (rvalue 3) (rvalue 10) (rvalue False);
       rvalue (f1, f2)
     }) \<lparr>stdout = [], mem = ()\<rparr> = ((Continue, Continue), \<lparr>stdout = [], mem = ()\<rparr>)
   \<and> run_state (do {
       f1 \<leftarrow> check_img_ptr 1 ''img '' (rvalue 1012) (rvalue False)
              (rvalue \<lparr>base = 1000, ni = 4, nj = 3, si = 3, sj = 1\<rparr>);
       f2 \<leftarrow> check_img_ptr 1 ''img '' (rvalue 1012) (rvalue False)
              (rvalue \<lparr>base = 1000, ni = 4, nj = 3, si = 3, sj = 1\<rparr>);
       rvalue (f1, f2)
     }) \<lparr>stdout = [], mem = ()\<rparr> =
     ((Return False, Return False),
      \<lparr>stdout = [(''img %p out of bound (%p,%dx%d, %dx%d\<newline>'',
                   [PtrArg 1012, PtrArg 1000, IntArg 4, IntArg 3, IntArg 3, IntArg 1]),
                  (''img %p out of bound (%p,%dx%d, %dx%d\<newline>'',
                   [PtrArg 1012, PtrArg 1000, IntArg 4, IntArg 3, IntArg 3, IntArg 1])],
       mem = ()\<rparr>)"
proof -
  note t = checks_repeatable [of 1 _ _ 10 False "\<lparr>stdout = [], mem = ()\<rparr>" 1012
      "\<lparr>base = 1000, ni = 4, nj = 3, si = 3, sj = 1\<rparr>"]
  from t [of "''row ''" "- 1"] t [of "''row ''" 3] t [of "''img ''" 3] enabled_1
  show ?thesis by simp
qed

text \<open>
  C10. The decision of an enabled check does not depend on the label or on the sentinel:
  two checks on the same \<open>x\<close> and \<open>n\<close>, or on the same \<open>p\<close> and descriptor, with any labels,
  any sentinel expressions and any states, both pass or both fail (first two parts). The
  label appears in the format of the \<^verbatim>\<open>printf\<close> call only, and the sentinel in the value
  returned only (last two parts).
\<close>

theorem checks_decision_independent:
  assumes "enabled d"
  shows "(fst (run_state (check d msg1 (rvalue x) (rvalue n) r1) w1) = Continue) =
           (fst (run_state (check d msg2 (rvalue x) (rvalue n) r2) w2) = Continue)
       \<and> (fst (run_state (check_img_ptr d msg1 (rvalue p) r1 (rvalue img)) w1) = Continue) =
           (fst (run_state (check_img_ptr d msg2 (rvalue p) r2 (rvalue img)) w2) = Continue)
       \<and> run_state (check d msg (rvalue x) (rvalue n) (rvalue r)) w =
           (if x < 0 \<or> x \<ge> n
            then (Return r,
                  w\<lparr>stdout := stdout w @
                     [(msg @ ''%d out of bound (%d)\<newline>'', [IntArg x, IntArg n])]\<rparr>)
            else (Continue, w))
       \<and> run_state (check_img_ptr d msg (rvalue p) (rvalue r) (rvalue img)) w =
           (if p < base img \<or> p > base img + sint ((ni img - 1) * si img + (nj img - 1) * sj img)
            then (Return r,
                  w\<lparr>stdout := stdout w @
                     [(msg @ ''%p out of bound (%p,%dx%d, %dx%d\<newline>'',
                       [PtrArg p, PtrArg (base img), IntArg (sint (ni img)), IntArg (sint (si img)),
                        IntArg (sint (nj img)), IntArg (sint (sj img))])]\<rparr>)
            else (Continue, w))"
  using assms
  by (simp add: check_def check_img_ptr_def check_enabled_decision check_img_ptr_enabled_decision
      check_enabled_run check_img_ptr_enabled_run)

theorem checks_decision_independent_witness:
  "((fst (run_state (check 1 ''row '' (rvalue (- 1)) (rvalue 10) (rvalue False))
        \<lparr>stdout = [], mem = ()\<rparr>) = Continue) =
    (fst (run_state (check 1 ''column '' (rvalue (- 1)) (rvalue 10) (rvalue (0::int)))
        \<lparr>stdout = [(''earlier'', [])], mem = ()\<rparr>) = Continue))
   \<and> fst (run_state (check 1 ''row '' (rvalue (- 1)) (rvalue 10) (rvalue False))
        \<lparr>stdout = [], mem = ()\<rparr>) = Return False
   \<and> fst (run_state (check 1 ''column '' (rvalue (- 1)) (rvalue 10) (rvalue (0::int)))
        \<lparr>stdout = [(''earlier'', [])], mem = ()\<rparr>) = Return 0"
proof -
  from checks_decision_independent
    [OF enabled_1, of "''row ''" "- 1" 10 "rvalue False" "\<lparr>stdout = [], mem = ()\<rparr>"
      "''column ''" "rvalue (0::int)" "\<lparr>stdout = [(''earlier'', [])], mem = ()\<rparr>"]
  show ?thesis by (simp add: check_run enabled_1)
qed

end
